theory Spec2Isabelle
  imports
    Complex_Main
    "HOL-Library.Char_ord"
    "HOL-Library.List_Lexorder"
begin

section \<open>Python values and exceptions\<close>

text \<open>
  The helpers of \<^verbatim>\<open>helpers.py\<close> and the dashboard feed of \<^verbatim>\<open>app.py\<close> compute on
  numbers that SQLite hands over as Python \<^verbatim>\<open>int\<close> or \<^verbatim>\<open>float\<close>. Numbers are modelled by
  their value, as exact rationals: Python compares and hashes \<^verbatim>\<open>int\<close> and \<^verbatim>\<open>float\<close> by
  value, and none of the modelled code distinguishes the two. The rounding of binary
  floating point is outside this model.
\<close>

text \<open>
  The values a field of a record can hold: \<^verbatim>\<open>None\<close>, a number or a string.
\<close>

datatype pyval = PyNone | PyNum rat | PyStr string

text \<open>
  The exceptions of the modelled code; \<open>LibraryError\<close> stands for what a library raises
  of its own. All of them are subclasses of \<^verbatim>\<open>Exception\<close>.
\<close>

datatype py_exn =
    TypeError
  | ValueError
  | KeyError
  | AttributeError
  | IndexError
  | ZeroDivisionError
  | LibraryError string

text \<open>\<^verbatim>\<open>x or 0\<close> on a number that may be \<^verbatim>\<open>None\<close>: a falsy operand gives the integer 0.\<close>

definition or_zero :: "rat option \<Rightarrow> rat" where
  "or_zero v = (case v of None \<Rightarrow> 0 | Some x \<Rightarrow> (if x = 0 then 0 else x))"

text \<open>True division \<^verbatim>\<open>a / b\<close>: raises on a zero divisor.\<close>

definition py_truediv :: "rat \<Rightarrow> rat \<Rightarrow> py_exn + rat" where
  "py_truediv a b = (if b = 0 then Inl ZeroDivisionError else Inr (a / b))"


section \<open>The health score\<close>



section \<open>Dictionaries\<close>

text \<open>
  A Python \<^verbatim>\<open>dict\<close> keeps its keys in insertion order: it is an association list
  whose lookups take the first binding of a key. A transaction record is a \<^verbatim>\<open>dict\<close>
  from column names to values.
\<close>

type_synonym txn = "(string \<times> pyval) list"

text \<open>\<^verbatim>\<open>d.get(k, default)\<close>\<close>

definition dict_get :: "('k \<times> 'v) list \<Rightarrow> 'k \<Rightarrow> 'v \<Rightarrow> 'v" where
  "dict_get d k dflt = (case map_of d k of None \<Rightarrow> dflt | Some v \<Rightarrow> v)"

text \<open>\<^verbatim>\<open>d[k]\<close>, which raises \<^verbatim>\<open>KeyError\<close> on a missing key.\<close>

definition dict_getitem :: "('k \<times> 'v) list \<Rightarrow> 'k \<Rightarrow> py_exn + 'v" where
  "dict_getitem d k = (case map_of d k of None \<Rightarrow> Inl KeyError | Some v \<Rightarrow> Inr v)"

text \<open>
  \<^verbatim>\<open>d[k] = v\<close>: an existing key keeps its position, a new key goes to the end.
\<close>

fun dict_setitem :: "'k \<Rightarrow> 'v \<Rightarrow> ('k \<times> 'v) list \<Rightarrow> ('k \<times> 'v) list" where
  "dict_setitem k v [] = [(k, v)]"
| "dict_setitem k v (p # d) = (if fst p = k then (k, v) # d else p # dict_setitem k v d)"

text \<open>\<^verbatim>\<open>dict(pairs)\<close>: the pairs are inserted one after the other.\<close>

definition dict_of_pairs :: "('k \<times> 'v) list \<Rightarrow> ('k \<times> 'v) list" where
  "dict_of_pairs ps = fold (\<lambda>p d. dict_setitem (fst p) (snd p) d) ps []"

section \<open>The transaction formatter\<close>

text \<open>
  \<^verbatim>\<open>s.split(sep)\<close> for a separator of one character: the pieces between the
  separators, never an empty list.
\<close>

fun py_split :: "char \<Rightarrow> string \<Rightarrow> string list" where
  "py_split sep [] = [[]]"
| "py_split sep (c # cs) =
     (if c = sep then [] # py_split sep cs
      else (case py_split sep cs of
              [] \<Rightarrow> [[c]]
            | p # ps \<Rightarrow> (c # p) # ps))"

text \<open>
  One turn of the loop of \<^verbatim>\<open>format_transactions\<close>:
  \<^verbatim>\<open>txn["date"] = txn["date"].split(" ")[0]\<close>. A record without a \<^verbatim>\<open>date\<close> raises
  \<^verbatim>\<open>KeyError\<close>, a date that is not a string has no \<^verbatim>\<open>split\<close>.
\<close>

definition format_txn :: "txn \<Rightarrow> py_exn + txn" where
  "format_txn txn =
     (case dict_getitem txn ''date'' of
        Inl e \<Rightarrow> Inl e
      | Inr d \<Rightarrow>
          (case d of
             PyStr s \<Rightarrow>
               (case py_split (CHR '' '') s of
                  [] \<Rightarrow> Inl IndexError
                | p # ps \<Rightarrow> Inr (dict_setitem ''date'' (PyStr p) txn))
           | PyNum x \<Rightarrow> Inl AttributeError
           | PyNone \<Rightarrow> Inl AttributeError))"

fun format_loop :: "txn list \<Rightarrow> py_exn + txn list" where
  "format_loop [] = Inr []"
| "format_loop (txn # txns) =
     (case format_txn txn of
        Inl e \<Rightarrow> Inl e
      | Inr txn' \<Rightarrow>
          (case format_loop txns of
             Inl e \<Rightarrow> Inl e
           | Inr txns' \<Rightarrow> Inr (txn' # txns')))"

text \<open>
  \<^verbatim>\<open>format_transactions(transactions)\<close>. It starts with a copy \<^verbatim>\<open>dict(txn)\<close> of every
  record, so that the caller's records are not changed; a copy has the value of the
  record it copies.
\<close>

definition dict_copy :: "('k \<times> 'v) list \<Rightarrow> ('k \<times> 'v) list" where
  "dict_copy d = d"

definition format_transactions :: "txn list \<Rightarrow> py_exn + txn list" where
  "format_transactions transactions = format_loop (map dict_copy transactions)"

section \<open>The category summarizer\<close>

text \<open>
  \<^verbatim>\<open>float(v)\<close>. The parser of numerals in strings is Python's own and is a parameter.
\<close>

definition py_float :: "(string \<Rightarrow> rat option) \<Rightarrow> pyval \<Rightarrow> py_exn + rat" where
  "py_float parse v =
     (case v of
        PyNum x \<Rightarrow> Inr x
      | PyStr s \<Rightarrow> (case parse s of None \<Rightarrow> Inl ValueError | Some x \<Rightarrow> Inr x)
      | PyNone \<Rightarrow> Inl TypeError)"

text \<open>The loop of \<^verbatim>\<open>get_category_summary\<close> over the transactions.\<close>

fun category_loop ::
  "(string \<Rightarrow> rat option) \<Rightarrow> txn list \<Rightarrow> (pyval \<times> rat) list \<Rightarrow> py_exn + (pyval \<times> rat) list"
where
  "category_loop parse [] category_summary = Inr category_summary"
| "category_loop parse (txn # txns) category_summary =
     (if dict_get txn ''type'' PyNone = PyStr ''expense'' then
        (let category = dict_get txn ''category'' (PyStr ''Uncategorized'') in
         case py_float parse (dict_get txn ''amount'' (PyNum 0)) of
           Inl e \<Rightarrow> Inl e
         | Inr amount \<Rightarrow>
             (let summary1 =
                    (if category \<notin> set (map fst category_summary)
                     then dict_setitem category 0 category_summary
                     else category_summary)
              in case dict_getitem summary1 category of
                   Inl e \<Rightarrow> Inl e
                 | Inr current \<Rightarrow>
                     category_loop parse txns (dict_setitem category (current + amount) summary1)))
      else category_loop parse txns category_summary)"

text \<open>
  \<^verbatim>\<open>sorted(items, key=lambda x: x[1], reverse=True)\<close>: a stable sort, descending by
  amount. Python keeps the original order of equal keys under \<^verbatim>\<open>reverse=True\<close> too, which
  is the stable ascending sort on the negated amount.
\<close>

definition sorted_by_amount_desc :: "('k \<times> rat) list \<Rightarrow> ('k \<times> rat) list" where
  "sorted_by_amount_desc items = sort_key (\<lambda>x. - snd x) items"

definition get_category_summary ::
  "(string \<Rightarrow> rat option) \<Rightarrow> txn list \<Rightarrow> py_exn + (pyval \<times> rat) list"
where
  "get_category_summary parse transactions =
     (case category_loop parse transactions [] of
        Inl e \<Rightarrow> Inl e
      | Inr category_summary \<Rightarrow> Inr (dict_of_pairs (sorted_by_amount_desc category_summary)))"

section \<open>The stored transactions and the queries on them\<close>

text \<open>
  A row of the table \<^verbatim>\<open>transactions\<close>; every column is declared \<^verbatim>\<open>NOT NULL\<close>.
\<close>

record transaction_row =
  row_id :: int
  user_id :: int
  description :: string
  category :: string
  txn_type :: string
  amount :: rat
  date :: string

type_synonym database = "transaction_row list"

text \<open>SQL's \<^verbatim>\<open>SUM\<close>: \<^verbatim>\<open>NULL\<close> (here \<open>None\<close>) over no rows.\<close>

definition sql_sum :: "rat list \<Rightarrow> rat option" where
  "sql_sum xs = (if xs = [] then None else Some (sum_list xs))"

text \<open>
  \<^verbatim>\<open>SELECT SUM(amount) FROM transactions WHERE user_id=? AND type=...\<close>
\<close>

definition select_sum_amount :: "database \<Rightarrow> int \<Rightarrow> string \<Rightarrow> rat option" where
  "select_sum_amount db uid ty =
     sql_sum (map amount (filter (\<lambda>r. user_id r = uid \<and> txn_type r = ty) db))"

text \<open>\<^verbatim>\<open>get_transaction_summary(user_id)\<close> of \<^verbatim>\<open>helpers.py\<close>.\<close>

definition get_transaction_summary :: "database \<Rightarrow> int \<Rightarrow> rat \<times> rat \<times> rat" where
  "get_transaction_summary db uid =
     (let total_income = or_zero (select_sum_amount db uid ''income'');
          total_expenses = or_zero (select_sum_amount db uid ''expenses'');
          balance = total_income - total_expenses
      in (total_income, total_expenses, balance))"

text \<open>
  \<^verbatim>\<open>get_transaction_data(user_id)\<close>: the user's rows, latest date first, each turned
  into a \<^verbatim>\<open>dict\<close> of the five selected columns.
\<close>

definition row_dict :: "transaction_row \<Rightarrow> txn" where
  "row_dict r =
     [(''date'', PyStr (date r)), (''amount'', PyNum (amount r)), (''type'', PyStr (txn_type r)),
      (''category'', PyStr (category r)), (''description'', PyStr (description r))]"

definition get_transaction_data :: "database \<Rightarrow> int \<Rightarrow> txn list" where
  "get_transaction_data db uid =
     map row_dict (rev (sort_key date (filter (\<lambda>r. user_id r = uid) db)))"

section \<open>The dashboard data feed\<close>

text \<open>
  \<^verbatim>\<open>SELECT category, SUM(amount) as total FROM transactions
       WHERE user_id=? AND type='expenses' GROUP BY category\<close>:
  one row for every category among the selected rows. SQL leaves the order of the groups
  open; SQLite forms them by sorting on the category, which is the order taken here.
\<close>

definition select_category_totals :: "database \<Rightarrow> int \<Rightarrow> (string \<times> rat) list" where
  "select_category_totals db uid =
     (let selected = filter (\<lambda>r. user_id r = uid \<and> txn_type r = ''expenses'') db
      in map (\<lambda>c. (c, sum_list (map amount (filter (\<lambda>r. category r = c) selected))))
           (sort (remdups (map category selected))))"

text \<open>
  \<^verbatim>\<open>SELECT amount, type, date FROM transactions WHERE user_id=? ORDER BY date ASC\<close>
\<close>

definition select_rows_by_date :: "database \<Rightarrow> int \<Rightarrow> transaction_row list" where
  "select_rows_by_date db uid = sort_key date (filter (\<lambda>r. user_id r = uid) db)"

text \<open>
  The category percentages of \<^verbatim>\<open>dashboard_data\<close>: the loop over the rows of
  \<^verbatim>\<open>categories_data\<close>, which runs only under the guard \<^verbatim>\<open>total_income > 0\<close>.
\<close>

fun percentages_loop ::
  "(string \<times> rat) list \<Rightarrow> rat \<Rightarrow> (string \<times> rat) list \<Rightarrow> py_exn + (string \<times> rat) list"
where
  "percentages_loop [] total_income category_percentages = Inr category_percentages"
| "percentages_loop (row # rows) total_income category_percentages =
     (let cat = fst row; total_spent = snd row in
      case py_truediv total_spent total_income of
        Inl e \<Rightarrow> Inl e
      | Inr q \<Rightarrow>
          percentages_loop rows total_income
            (dict_setitem cat (q * 100) category_percentages))"

definition category_percentages ::
  "(string \<times> rat) list \<Rightarrow> rat \<Rightarrow> py_exn + (string \<times> rat) list"
where
  "category_percentages categories_data total_income =
     (if total_income > 0 then percentages_loop categories_data total_income []
      else Inr [])"

text \<open>
  The trend data: \<^verbatim>\<open>trends\<close> is a \<^verbatim>\<open>defaultdict\<close> whose missing keys start as
  \<^verbatim>\<open>{"income": 0, "expenses": 0}\<close>, here the pair \<open>(0, 0)\<close> of the income and the
  expenses of a date. Every type other than \<^verbatim>\<open>income\<close> counts as expenses.
\<close>

fun trends_loop ::
  "transaction_row list \<Rightarrow> (string \<times> rat \<times> rat) list \<Rightarrow> (string \<times> rat \<times> rat) list"
where
  "trends_loop [] trends = trends"
| "trends_loop (row # rows) trends =
     (let date_str = date row;
          amt = amount row;
          trends1 = (if date_str \<in> set (map fst trends) then trends
                     else dict_setitem date_str (0, 0) trends);
          entry = dict_get trends1 date_str (0, 0)
      in if txn_type row = ''income''
         then trends_loop rows (dict_setitem date_str (fst entry + amt, snd entry) trends1)
         else trends_loop rows (dict_setitem date_str (fst entry, snd entry + amt) trends1))"

definition trend_series :: "transaction_row list \<Rightarrow> string list \<times> rat list \<times> rat list" where
  "trend_series rows =
     (let trends = trends_loop rows [];
          sorted_dates = sort (map fst trends);
          income_trend = map (\<lambda>d. fst (dict_get trends d (0, 0))) sorted_dates;
          expenses_trend = map (\<lambda>d. snd (dict_get trends d (0, 0))) sorted_dates
      in (sorted_dates, income_trend, expenses_trend))"

text \<open>The JSON object that \<^verbatim>\<open>dashboard_data\<close> answers with.\<close>

record dashboard_json =
  json_total_income :: rat
  json_total_expenses :: rat
  json_categories :: "string list"
  json_percentages :: "rat list"
  json_dates :: "string list"
  json_income :: "rat list"
  json_expenses :: "rat list"

definition dashboard_data :: "database \<Rightarrow> int \<Rightarrow> py_exn + dashboard_json" where
  "dashboard_data db uid =
     (let rows = select_rows_by_date db uid;
          total_income = or_zero (select_sum_amount db uid ''income'');
          total_expenses = or_zero (select_sum_amount db uid ''expenses'');
          categories_data = select_category_totals db uid
      in case category_percentages categories_data total_income of
           Inl e \<Rightarrow> Inl e
         | Inr percentages_by_category \<Rightarrow>
             (let categories = map fst percentages_by_category;
                  percentages = map snd percentages_by_category;
                  series = trend_series rows
              in Inr \<lparr> json_total_income = total_income,
                       json_total_expenses = total_expenses,
                       json_categories = categories,
                       json_percentages = percentages,
                       json_dates = fst series,
                       json_income = fst (snd series),
                       json_expenses = snd (snd series) \<rparr>))"

section \<open>Last month's expenses\<close>

text \<open>
  The values of SQLite, by storage class, and its comparison \<^verbatim>\<open>=\<close> of two operands
  without column affinity (the result of a function and a bound parameter have none, so
  no operand is converted): a comparison with \<^verbatim>\<open>NULL\<close> is \<^verbatim>\<open>NULL\<close> (here \<open>None\<close>);
  numbers are compared by value; a number, a text and a blob are never equal to one
  another.
\<close>

datatype sql_value =
    SqlNull
  | SqlInteger int
  | SqlReal rat
  | SqlText string
  | SqlBlob string

fun sql_eq :: "sql_value \<Rightarrow> sql_value \<Rightarrow> bool option" where
  "sql_eq SqlNull y = None"
| "sql_eq x SqlNull = None"
| "sql_eq (SqlInteger a) (SqlInteger b) = Some (a = b)"
| "sql_eq (SqlInteger a) (SqlReal b) = Some (of_int a = b)"
| "sql_eq (SqlReal a) (SqlInteger b) = Some (a = of_int b)"
| "sql_eq (SqlReal a) (SqlReal b) = Some (a = b)"
| "sql_eq (SqlText a) (SqlText b) = Some (a = b)"
| "sql_eq (SqlBlob a) (SqlBlob b) = Some (a = b)"
| "sql_eq x y = Some False"

text \<open>
  \<^verbatim>\<open>strftime('%m', date)\<close>: the month of a date as a text of two digits, or \<^verbatim>\<open>NULL\<close>
  for a text that is no date. How SQLite reads a date is a parameter \<open>month_of\<close>.
\<close>

definition sql_strftime_m :: "(string \<Rightarrow> string option) \<Rightarrow> string \<Rightarrow> sql_value" where
  "sql_strftime_m month_of d = (case month_of d of None \<Rightarrow> SqlNull | Some m \<Rightarrow> SqlText m)"

text \<open>
  \<^verbatim>\<open>get_last_month_expenses(user_id)\<close>. The month \<^verbatim>\<open>last_month\<close> is the Python
  \<^verbatim>\<open>int\<close> read off the clock, which \<^verbatim>\<open>sqlite3\<close> binds as an \<^verbatim>\<open>INTEGER\<close>. A row is
  selected when its \<^verbatim>\<open>WHERE\<close> clause is true.
\<close>

definition get_last_month_expenses ::
  "(string \<Rightarrow> string option) \<Rightarrow> int \<Rightarrow> database \<Rightarrow> int \<Rightarrow> rat"
where
  "get_last_month_expenses month_of last_month db uid =
     (let result =
            sql_sum (map amount
              (filter (\<lambda>r. user_id r = uid \<and> txn_type r = ''expenses'' \<and>
                          sql_eq (sql_strftime_m month_of (date r)) (SqlInteger last_month)
                            = Some True) db))
      in case result of
           None \<Rightarrow> 0
         | Some x \<Rightarrow> (if x \<noteq> 0 then x else 0))"


section \<open>The report document builder\<close>

text \<open>
  \<^verbatim>\<open>build_transaction_pdf\<close> collects the flowables of the report in the list
  \<^verbatim>\<open>elements\<close> and hands it to ReportLab's \<^verbatim>\<open>pdf.build\<close>. A flowable is modelled by its
  content: the text and the style of a paragraph, the size of a spacer, the cells of a
  table. Fonts, colours and column widths are constants of the source and are named only
  by the style of a paragraph and the kind of a table.
\<close>

datatype para_style = Subtitle | SectionHeading | NoData | Footer

datatype table_kind = SummaryTable | CategoryTable | TransactionTable

datatype flowable =
    Paragraph string para_style
  | Spacer nat nat
  | Table "pyval list list" table_kind

text \<open>
  What the builder takes from Python's library and from ReportLab: the number formats
  \<^verbatim>\<open>:,.2f\<close> and \<^verbatim>\<open>:.1f\<close>, the two readings of the clock as formatted by
  \<^verbatim>\<open>strftime\<close>, the parser behind \<^verbatim>\<open>float\<close>, the rendering \<^verbatim>\<open>pdf.build\<close> (which
  answers with the exception it raises, if any) and the text of an exception.
\<close>

record report_lib =
  format_comma_2f :: "rat \<Rightarrow> string"
  format_1f :: "rat \<Rightarrow> string"
  strftime_header :: string
  strftime_footer :: string
  parse_float :: "string \<Rightarrow> rat option"
  pdf_build :: "string \<Rightarrow> flowable list \<Rightarrow> py_exn option"
  exn_message :: "py_exn \<Rightarrow> string"

text \<open>Sequencing of steps that may raise: the first exception ends the run.\<close>

definition bind_exn :: "py_exn + 'a \<Rightarrow> ('a \<Rightarrow> py_exn + 'b) \<Rightarrow> py_exn + 'b" where
  "bind_exn m f = (case m of Inl e \<Rightarrow> Inl e | Inr x \<Rightarrow> f x)"

text \<open>
  \<^verbatim>\<open>f"${v:,.2f}"\<close>: a number is formatted; \<^verbatim>\<open>None\<close> and a string do not take the
  format \<^verbatim>\<open>f\<close>.
\<close>

definition format_money :: "report_lib \<Rightarrow> pyval \<Rightarrow> py_exn + string" where
  "format_money lib v =
     (case v of
        PyNum x \<Rightarrow> Inr (''$'' @ format_comma_2f lib x)
      | PyStr s \<Rightarrow> Inl ValueError
      | PyNone \<Rightarrow> Inl TypeError)"

text \<open>\<^verbatim>\<open>v[:30]\<close>: the first 30 characters of a string; other values cannot be sliced.\<close>

definition slice_30 :: "pyval \<Rightarrow> py_exn + pyval" where
  "slice_30 v =
     (case v of
        PyStr s \<Rightarrow> Inr (PyStr (take 30 s))
      | PyNum x \<Rightarrow> Inl TypeError
      | PyNone \<Rightarrow> Inl TypeError)"

text \<open>The rows of the expense breakdown, one for every item of the category summary.\<close>

fun category_rows ::
  "report_lib \<Rightarrow> (pyval \<times> rat) list \<Rightarrow> rat \<Rightarrow> py_exn + pyval list list"
where
  "category_rows lib [] total_expenses_calc = Inr []"
| "category_rows lib (item # items) total_expenses_calc =
     (let cat = fst item; amt = snd item in
      bind_exn
        (if total_expenses_calc > 0
         then bind_exn (py_truediv amt total_expenses_calc) (\<lambda>q. Inr (q * 100))
         else Inr 0)
        (\<lambda>percentage.
          bind_exn (category_rows lib items total_expenses_calc)
            (\<lambda>rows. Inr ([cat, PyStr (''$'' @ format_comma_2f lib amt),
                           PyStr (format_1f lib percentage @ ''%'')] # rows))))"

text \<open>The rows of the transaction table, one for every transaction.\<close>

fun transaction_rows :: "report_lib \<Rightarrow> txn list \<Rightarrow> py_exn + pyval list list" where
  "transaction_rows lib [] = Inr []"
| "transaction_rows lib (txn # txns) =
     bind_exn (format_money lib (dict_get txn ''amount'' (PyNum 0)))
       (\<lambda>amount_str.
         bind_exn (slice_30 (dict_get txn ''description'' (PyStr [])))
           (\<lambda>short_description.
             bind_exn (transaction_rows lib txns)
               (\<lambda>rows. Inr ([dict_get txn ''date'' (PyStr []),
                              short_description,
                              dict_get txn ''category'' (PyStr []),
                              dict_get txn ''type'' (PyStr []),
                              PyStr amount_str] # rows))))"

text \<open>The list \<^verbatim>\<open>elements\<close> as it stands when \<^verbatim>\<open>pdf.build\<close> is called.\<close>

definition report_elements ::
  "report_lib \<Rightarrow> txn list \<Rightarrow> pyval \<Rightarrow> pyval \<Rightarrow> pyval \<Rightarrow> py_exn + flowable list"
where
  "report_elements lib transactions total_income total_expenses balance =
     (let elements0 =
            [Paragraph (''Financial Report - '' @ strftime_header lib) Subtitle,
             Spacer 1 12,
             Paragraph ''Financial Summary'' SectionHeading]
      in
      bind_exn (format_money lib total_income) (\<lambda>income_str.
      bind_exn (format_money lib total_expenses) (\<lambda>expenses_str.
      bind_exn (format_money lib balance) (\<lambda>balance_str.
      (let summary_data =
             [[PyStr ''Metric'', PyStr ''Amount''],
              [PyStr ''Total Income'', PyStr income_str],
              [PyStr ''Total Expenses'', PyStr expenses_str],
              [PyStr ''Net Balance'', PyStr balance_str]];
           elements1 = elements0 @ [Table summary_data SummaryTable, Spacer 1 20]
       in
       bind_exn (get_category_summary (parse_float lib) transactions) (\<lambda>category_summary.
       bind_exn
         (if category_summary \<noteq> [] then
            bind_exn
              (category_rows lib category_summary (sum_list (map snd category_summary)))
              (\<lambda>rows.
                 Inr (elements1 @
                   [Paragraph ''Expense Breakdown by Category'' SectionHeading,
                    Table ([PyStr ''Category'', PyStr ''Amount'', PyStr ''Percentage''] # rows)
                      CategoryTable,
                    Spacer 1 20]))
          else Inr elements1)
         (\<lambda>elements2.
       (let elements3 = elements2 @ [Paragraph ''Transaction Details'' SectionHeading] in
        bind_exn
          (if transactions \<noteq> [] then
             bind_exn (transaction_rows lib transactions)
               (\<lambda>rows.
                  Inr (elements3 @
                    [Table ([PyStr ''Date'', PyStr ''Description'', PyStr ''Category'',
                             PyStr ''Type'', PyStr ''Amount''] # rows)
                       TransactionTable]))
           else Inr (elements3 @ [Paragraph ''No transactions available.'' NoData]))
          (\<lambda>elements4.
             Inr (elements4 @
               [Spacer 1 30,
                Paragraph ''Generated by BudgetBuddy Financial Tracker'' Footer,
                Paragraph (strftime_footer lib) Footer]))))))))))"

text \<open>The body of the \<^verbatim>\<open>try\<close>: the elements, then \<^verbatim>\<open>pdf.build(elements)\<close>, then \<^verbatim>\<open>True\<close>.\<close>

definition build_body ::
  "report_lib \<Rightarrow> txn list \<Rightarrow> string \<Rightarrow> pyval \<Rightarrow> pyval \<Rightarrow> pyval \<Rightarrow> py_exn + bool"
where
  "build_body lib transactions filename total_income total_expenses balance =
     bind_exn (report_elements lib transactions total_income total_expenses balance)
       (\<lambda>elements.
          case pdf_build lib filename elements of
            Some e \<Rightarrow> Inl e
          | None \<Rightarrow> Inr True)"

text \<open>
  \<^verbatim>\<open>build_transaction_pdf\<close>: the body under \<^verbatim>\<open>try\<close>, and the handler
  \<^verbatim>\<open>except Exception as e\<close> that prints one line and returns \<^verbatim>\<open>False\<close>. The result is
  the lines printed and the value returned, or the exception that reaches the caller.
\<close>

definition build_transaction_pdf ::
  "report_lib \<Rightarrow> txn list \<Rightarrow> string \<Rightarrow> pyval \<Rightarrow> pyval \<Rightarrow> pyval
     \<Rightarrow> py_exn + (string list \<times> bool)"
where
  "build_transaction_pdf lib transactions filename total_income total_expenses balance =
     (case build_body lib transactions filename total_income total_expenses balance of
        Inr ok \<Rightarrow> Inr ([], ok)
      | Inl e \<Rightarrow> Inr ([''Error building PDF: '' @ exn_message lib e], False))"

section \<open>Sample data\<close>

text \<open>
  The three transactions of the specification's worked example, as rows of user 1:
  an income of 100 and an expense of 40 on 2024-01-01, an expense of 20 on 2024-01-02.
\<close>

definition example_rows :: database where
  "example_rows =
     [\<lparr> row_id = 1, user_id = 1, description = ''pay'', category = ''Job'',
        txn_type = ''income'', amount = 100, date = ''2024-01-01'' \<rparr>,
      \<lparr> row_id = 2, user_id = 1, description = ''food'', category = ''Food'',
        txn_type = ''expenses'', amount = 40, date = ''2024-01-01'' \<rparr>,
      \<lparr> row_id = 3, user_id = 1, description = ''bus'', category = ''Travel'',
        txn_type = ''expenses'', amount = 20, date = ''2024-01-02'' \<rparr>]"


text \<open>
  Two records as \<^verbatim>\<open>SELECT *\<close> hands them to the formatter, the first with a time of day
  after its date, and the same records with the dates cut.
\<close>

definition sample_txns :: "txn list" where
  "sample_txns =
     [[(''id'', PyNum 7), (''date'', PyStr ''2024-01-05 10:30:00''), (''amount'', PyNum 5)],
      [(''id'', PyNum 8), (''date'', PyStr ''2024-01-06''), (''amount'', PyNum 3)]]"

definition sample_txns_formatted :: "txn list" where
  "sample_txns_formatted =
     [[(''id'', PyNum 7), (''date'', PyStr ''2024-01-05''), (''amount'', PyNum 5)],
      [(''id'', PyNum 8), (''date'', PyStr ''2024-01-06''), (''amount'', PyNum 3)]]"

section \<open>Facts about dictionaries\<close>

lemma dict_get_Nil: "dict_get [] k dflt = dflt"
  by (simp add: dict_get_def)

lemma dict_get_absent: "k \<notin> fst ` set d \<Longrightarrow> dict_get d k dflt = dflt"
  by (simp add: dict_get_def map_of_eq_None_iff [THEN iffD2])

lemma dict_get_setitem:
  "dict_get (dict_setitem k v d) k' dflt = (if k' = k then v else dict_get d k' dflt)"
  by (induction d) (auto simp: dict_get_def)

lemma map_of_setitem:
  "map_of (dict_setitem k v d) k' = (if k' = k then Some v else map_of d k')"
  by (induction d) auto

lemma keys_setitem: "fst ` set (dict_setitem k v d) = insert k (fst ` set d)"
  by (induction d) auto

lemma distinct_keys_setitem:
  "distinct (map fst d) \<Longrightarrow> distinct (map fst (dict_setitem k v d))"
  by (induction d) (auto simp: keys_setitem)

lemma dict_setitem_fresh:
  "k \<notin> set (map fst d) \<Longrightarrow> dict_setitem k v d = d @ [(k, v)]"
  by (induction d) auto

lemma dict_setitem_same: "map_of d k = Some v \<Longrightarrow> dict_setitem k v d = d"
  by (induction d) (auto split: if_splits)

lemma keys_setitem_present:
  "map_of d k = Some v0 \<Longrightarrow> map fst (dict_setitem k v d) = map fst d"
  by (induction d) (auto split: if_splits)

lemma dict_of_pairs_Nil: "dict_of_pairs [] = []"
  by (simp add: dict_of_pairs_def)

lemma map_dict_copy: "map dict_copy ds = ds"
  by (induction ds) (simp_all add: dict_copy_def)

section \<open>Properties of the health score\<close>


lemma or_zero_Some [simp]: "or_zero (Some x) = x"
  by (simp add: or_zero_def)

lemma or_zero_None [simp]: "or_zero None = 0"
  by (simp add: or_zero_def)

lemma or_zero_sql_sum: "or_zero (sql_sum xs) = sum_list xs"
  by (simp add: sql_sum_def)



section \<open>Properties of the summary\<close>

text \<open>
  Claim C4: \<^verbatim>\<open>get_transaction_summary\<close> returns the sum of the user's income amounts, the
  sum of the user's expense amounts and their difference as the balance; without
  transactions all three are 0, and without transactions of one type the total of that
  type is 0. It returns a triple in every case, never an error.
\<close>

theorem get_transaction_summary_totals:
  "get_transaction_summary db uid =
     (sum_list (map amount (filter (\<lambda>r. user_id r = uid \<and> txn_type r = ''income'') db)),
      sum_list (map amount (filter (\<lambda>r. user_id r = uid \<and> txn_type r = ''expenses'') db)),
      sum_list (map amount (filter (\<lambda>r. user_id r = uid \<and> txn_type r = ''income'') db)) -
      sum_list (map amount (filter (\<lambda>r. user_id r = uid \<and> txn_type r = ''expenses'') db)))
   \<and> snd (snd (get_transaction_summary db uid)) =
       fst (get_transaction_summary db uid) - fst (snd (get_transaction_summary db uid))
   \<and> get_transaction_summary [] uid = (0, 0, 0)
   \<and> fst (get_transaction_summary (filter (\<lambda>r. txn_type r \<noteq> ''income'') db) uid) = 0
   \<and> fst (snd (get_transaction_summary (filter (\<lambda>r. txn_type r \<noteq> ''expenses'') db) uid)) = 0
   \<and> get_transaction_summary example_rows 1 = (100, 60, 40)"
  by (simp add: get_transaction_summary_def select_sum_amount_def or_zero_sql_sum Let_def
      example_rows_def)

section \<open>Properties of the transaction formatter\<close>

lemma py_split_nonempty: "py_split sep s \<noteq> []"
  by (induction s) (auto split: list.split)

lemma hd_py_split: "hd (py_split sep s) = takeWhile (\<lambda>c. c \<noteq> sep) s"
  by (induction s) (auto split: list.split simp: py_split_nonempty)

lemma py_split_first: "\<exists>ps. py_split sep s = takeWhile (\<lambda>c. c \<noteq> sep) s # ps"
  using hd_py_split [of sep s] py_split_nonempty [of sep s]
  by (cases "py_split sep s") auto

text \<open>One turn of the loop, by the value stored under \<^verbatim>\<open>date\<close>.\<close>

lemma format_txn_eq:
  "format_txn txn =
     (case map_of txn ''date'' of
        None \<Rightarrow> Inl KeyError
      | Some (PyStr s) \<Rightarrow>
          Inr (dict_setitem ''date'' (PyStr (takeWhile (\<lambda>c. c \<noteq> CHR '' '') s)) txn)
      | Some (PyNum x) \<Rightarrow> Inl AttributeError
      | Some PyNone \<Rightarrow> Inl AttributeError)"
proof (cases "map_of txn ''date''")
  case None
  then show ?thesis by (simp add: format_txn_def dict_getitem_def)
next
  case (Some d)
  show ?thesis
  proof (cases d)
    case (PyStr s)
    obtain ps where "py_split (CHR '' '') s = takeWhile (\<lambda>c. c \<noteq> CHR '' '') s # ps"
      using py_split_first by blast
    with Some PyStr show ?thesis by (simp add: format_txn_def dict_getitem_def)
  qed (use Some in \<open>simp_all add: format_txn_def dict_getitem_def\<close>)
qed

lemma format_txn_Inr:
  "format_txn txn = Inr txn' \<Longrightarrow>
     \<exists>s. map_of txn ''date'' = Some (PyStr s) \<and>
         txn' = dict_setitem ''date'' (PyStr (takeWhile (\<lambda>c. c \<noteq> CHR '' '') s)) txn"
  unfolding format_txn_eq by (auto split: option.splits pyval.splits)

lemma format_txn_idem: "format_txn txn = Inr txn' \<Longrightarrow> format_txn txn' = Inr txn'"
proof -
  assume "format_txn txn = Inr txn'"
  then obtain s where s: "map_of txn ''date'' = Some (PyStr s)"
    and t': "txn' = dict_setitem ''date'' (PyStr (takeWhile (\<lambda>c. c \<noteq> CHR '' '') s)) txn"
    using format_txn_Inr by blast
  let ?p = "takeWhile (\<lambda>c. c \<noteq> CHR '' '') s"
  have look: "map_of txn' ''date'' = Some (PyStr ?p)"
    using t' by (simp add: map_of_setitem)
  have "dict_setitem ''date'' (PyStr ?p) txn' = txn'"
    using look by (rule dict_setitem_same)
  then show ?thesis
    unfolding format_txn_eq [of txn'] using look by simp
qed

lemma format_txn_frame:
  assumes "format_txn t = Inr t'"
  shows "\<exists>s. map_of t ''date'' = Some (PyStr s) \<and>
             map_of t' ''date'' = Some (PyStr (takeWhile (\<lambda>c. c \<noteq> CHR '' '') s)) \<and>
             map fst t' = map fst t \<and>
             (\<forall>k. k \<noteq> ''date'' \<longrightarrow> map_of t' k = map_of t k)"
proof -
  obtain s where s: "map_of t ''date'' = Some (PyStr s)"
    and t': "t' = dict_setitem ''date'' (PyStr (takeWhile (\<lambda>c. c \<noteq> CHR '' '') s)) t"
    using format_txn_Inr [OF assms] by blast
  show ?thesis
    using s t' by (simp add: map_of_setitem keys_setitem_present)
qed

lemma format_loop_idem: "format_loop txns = Inr out \<Longrightarrow> format_loop out = Inr out"
proof (induction txns arbitrary: out)
  case Nil
  then show ?case by simp
next
  case (Cons t ts)
  from Cons.prems obtain t' ts' where t': "format_txn t = Inr t'"
    and ts': "format_loop ts = Inr ts'" and out: "out = t' # ts'"
    by (auto split: sum.splits)
  show ?case
    using format_txn_idem [OF t'] Cons.IH [OF ts'] out by simp
qed

lemma format_loop_each:
  "format_loop txns = Inr out \<Longrightarrow> list_all2 (\<lambda>t t'. format_txn t = Inr t') txns out"
proof (induction txns arbitrary: out)
  case Nil
  then show ?case by simp
next
  case (Cons t ts)
  from Cons.prems obtain t' ts' where t': "format_txn t = Inr t'"
    and ts': "format_loop ts = Inr ts'" and out: "out = t' # ts'"
    by (auto split: sum.splits)
  show ?case
    using t' Cons.IH [OF ts'] out by simp
qed

lemma format_loop_total:
  "list_all (\<lambda>t. \<exists>s. map_of t ''date'' = Some (PyStr s)) txns \<Longrightarrow>
   \<exists>out. format_loop txns = Inr out"
  by (induction txns) (auto simp: format_txn_eq)

lemma format_loop_unchanged:
  "list_all (\<lambda>t. \<exists>s. map_of t ''date'' = Some (PyStr s) \<and> CHR '' '' \<notin> set s) txns \<Longrightarrow>
   format_loop txns = Inr txns"
proof (induction txns)
  case Nil
  then show ?case by simp
next
  case (Cons t ts)
  then obtain s where s: "map_of t ''date'' = Some (PyStr s)" and ns: "CHR '' '' \<notin> set s"
    by auto
  have tw: "takeWhile (\<lambda>c. c \<noteq> CHR '' '') s = s"
    using ns by (auto simp: takeWhile_eq_all_conv)
  have "format_txn t = Inr t"
    by (simp add: format_txn_eq s tw dict_setitem_same [OF s])
  then show ?case using Cons by simp
qed

lemma format_transactions_loop: "format_transactions txns = format_loop txns"
  by (simp add: format_transactions_def map_dict_copy)

text \<open>
  Claim C7: when \<^verbatim>\<open>format_transactions\<close> returns the list \<open>out\<close> for the list \<open>txns\<close>,
  formatting \<open>out\<close> again returns \<open>out\<close> unchanged. Each record of \<open>out\<close> is the record
  of \<open>txns\<close> at its place with the same keys in the same order and the same value under
  every key but \<^verbatim>\<open>date\<close>, whose string is cut before its first space. When no date holds
  a space, \<open>out\<close> is \<open>txns\<close>. The formatter returns a list for every list of records
  whose \<^verbatim>\<open>date\<close> is a string.
\<close>

theorem format_transactions_idempotent:
  assumes "format_transactions txns = Inr out"
  shows "format_transactions out = Inr out
       \<and> list_all2 (\<lambda>t t'. \<exists>s. map_of t ''date'' = Some (PyStr s) \<and>
             map_of t' ''date'' = Some (PyStr (takeWhile (\<lambda>c. c \<noteq> CHR '' '') s)) \<and>
             map fst t' = map fst t \<and>
             (\<forall>k. k \<noteq> ''date'' \<longrightarrow> map_of t' k = map_of t k)) txns out
       \<and> (list_all (\<lambda>t. \<exists>s. map_of t ''date'' = Some (PyStr s) \<and> CHR '' '' \<notin> set s) txns
            \<longrightarrow> out = txns)
       \<and> (list_all (\<lambda>t. \<exists>s. map_of t ''date'' = Some (PyStr s)) others
            \<longrightarrow> (\<exists>res. format_transactions others = Inr res))"
proof -
  have loop: "format_loop txns = Inr out"
    using assms by (simp add: format_transactions_loop)
  have "format_transactions out = Inr out"
    using format_loop_idem [OF loop] by (simp add: format_transactions_loop)
  moreover have "list_all2 (\<lambda>t t'. \<exists>s. map_of t ''date'' = Some (PyStr s) \<and>
             map_of t' ''date'' = Some (PyStr (takeWhile (\<lambda>c. c \<noteq> CHR '' '') s)) \<and>
             map fst t' = map fst t \<and>
             (\<forall>k. k \<noteq> ''date'' \<longrightarrow> map_of t' k = map_of t k)) txns out"
    using format_loop_each [OF loop]
    by (rule list_all2_mono) (rule format_txn_frame)
  moreover have "list_all (\<lambda>t. \<exists>s. map_of t ''date'' = Some (PyStr s) \<and> CHR '' '' \<notin> set s) txns
            \<longrightarrow> out = txns"
    using format_loop_unchanged [of txns] loop by auto
  moreover have "list_all (\<lambda>t. \<exists>s. map_of t ''date'' = Some (PyStr s)) others
            \<longrightarrow> (\<exists>res. format_transactions others = Inr res)"
    using format_loop_total [of others] by (simp add: format_transactions_loop)
  ultimately show ?thesis by blast
qed

text \<open>
  The theorem at the two sample records: the first date loses its time of day, the second
  stays, and a second pass changes nothing.
\<close>

theorem format_transactions_idempotent_witness:
  "format_transactions sample_txns = Inr sample_txns_formatted
   \<and> format_transactions sample_txns_formatted = Inr sample_txns_formatted"
proof -
  have h: "format_transactions sample_txns = Inr sample_txns_formatted"
    by (simp add: format_transactions_loop sample_txns_def
        sample_txns_formatted_def format_txn_def dict_getitem_def)
  show ?thesis
    using h format_transactions_idempotent [OF h, of "[]"] by simp
qed

section \<open>Properties of the category summarizer\<close>

text \<open>
  The loop adds a transaction only when its type is the string \<^verbatim>\<open>expense\<close>; it passes
  over every other record.
\<close>

lemma category_loop_no_expense:
  "list_all (\<lambda>t. dict_get t ''type'' PyNone \<noteq> PyStr ''expense'') txns \<Longrightarrow>
   category_loop parse txns summary = Inr summary"
  by (induction txns arbitrary: summary) simp_all

lemma get_category_summary_no_expense:
  "list_all (\<lambda>t. dict_get t ''type'' PyNone \<noteq> PyStr ''expense'') txns \<Longrightarrow>
   get_category_summary parse txns = Inr []"
  by (simp add: get_category_summary_def category_loop_no_expense sorted_by_amount_desc_def
      dict_of_pairs_Nil)

lemma get_category_summary_Nil: "get_category_summary parse [] = Inr []"
  by (simp add: get_category_summary_no_expense)

text \<open>
  The stored types are \<^verbatim>\<open>income\<close> and \<^verbatim>\<open>expenses\<close>, so the summary of the records that
  \<^verbatim>\<open>get_transaction_data\<close> reads from such a table is empty, whatever the user spent.
\<close>

lemma get_category_summary_stored_rows:
  "list_all (\<lambda>r. txn_type r = ''income'' \<or> txn_type r = ''expenses'') db \<Longrightarrow>
   get_category_summary parse (get_transaction_data db uid) = Inr []"
proof (rule get_category_summary_no_expense)
  assume "list_all (\<lambda>r. txn_type r = ''income'' \<or> txn_type r = ''expenses'') db"
  then have "\<forall>r \<in> set db. dict_get (row_dict r) ''type'' PyNone \<noteq> PyStr ''expense''"
    by (auto simp: list_all_iff row_dict_def dict_get_def)
  then show "list_all (\<lambda>t. dict_get t ''type'' PyNone \<noteq> PyStr ''expense'')
      (get_transaction_data db uid)"
    by (auto simp: list_all_iff get_transaction_data_def)
qed

text \<open>
  Claim C2 does not hold of the code: for one expense of 40 on food, stored with the type
  \<^verbatim>\<open>expenses\<close>, the summary is empty, where the claim asks for the key \<^verbatim>\<open>Food\<close> with the
  amount 40. The same record with the type \<^verbatim>\<open>expense\<close> is summed as the claim says.
\<close>

theorem get_category_summary_drops_expenses:
  "get_category_summary parse
     [[(''date'', PyStr ''2024-01-01''), (''amount'', PyNum 40), (''type'', PyStr ''expenses''),
       (''category'', PyStr ''Food''), (''description'', PyStr ''lunch'')]] = Inr []
   \<and> get_category_summary parse
     [[(''date'', PyStr ''2024-01-01''), (''amount'', PyNum 40), (''type'', PyStr ''expense''),
       (''category'', PyStr ''Food''), (''description'', PyStr ''lunch'')]]
     = Inr [(PyStr ''Food'', 40)]"
  by (simp add: get_category_summary_def dict_get_def py_float_def dict_getitem_def
      sorted_by_amount_desc_def dict_of_pairs_def)

section \<open>Properties of the category percentages\<close>

lemma percentages_loop_fold:
  "total_income \<noteq> 0 \<Longrightarrow>
   percentages_loop rows total_income acc =
     Inr (fold (\<lambda>row d. dict_setitem (fst row) (snd row / total_income * 100) d) rows acc)"
  by (induction rows arbitrary: acc) (simp_all add: py_truediv_def Let_def)

lemma fold_setitem_distinct:
  "distinct (map fst rows) \<Longrightarrow> set (map fst rows) \<inter> set (map fst acc) = {} \<Longrightarrow>
   fold (\<lambda>row d. dict_setitem (fst row) (f row) d) rows acc =
     acc @ map (\<lambda>row. (fst row, f row)) rows"
proof (induction rows arbitrary: acc)
  case Nil
  then show ?case by simp
next
  case (Cons row rows)
  have fresh: "fst row \<notin> set (map fst acc)"
    using Cons.prems(2) by auto
  have disj: "set (map fst rows) \<inter> set (map fst (acc @ [(fst row, f row)])) = {}"
    using Cons.prems by auto
  have dist: "distinct (map fst rows)"
    using Cons.prems(1) by simp
  show ?case
    using Cons.IH [OF dist disj] fresh by (simp add: dict_setitem_fresh)
qed

lemma distinct_category_totals: "distinct (map fst (select_category_totals db uid))"
  by (simp add: select_category_totals_def Let_def comp_def)

lemma category_percentages_eq:
  "distinct (map fst categories_data) \<Longrightarrow>
   category_percentages categories_data total_income =
     Inr (if total_income > 0
          then map (\<lambda>row. (fst row, snd row / total_income * 100)) categories_data
          else [])"
  by (simp add: category_percentages_def percentages_loop_fold fold_setitem_distinct)

lemma category_percentages_no_exn:
  "category_percentages categories_data total_income \<noteq> Inl e"
  by (simp add: category_percentages_def percentages_loop_fold)

text \<open>
  Claim C6: the category percentages are computed without a division by zero. For the
  category totals of any table and any \<open>total_income\<close>, the result is the empty mapping
  when \<open>total_income\<close> is not positive (so when it is 0) and otherwise maps every expense
  category, in the order of the query, to its total divided by \<open>total_income\<close>, times 100;
  for any rows at all, the computation raises nothing.
\<close>

theorem category_percentages_safe:
  "category_percentages (select_category_totals db uid) total_income =
     Inr (if total_income > 0
          then map (\<lambda>row. (fst row, snd row / total_income * 100))
                 (select_category_totals db uid)
          else [])
   \<and> category_percentages categories_data 0 = Inr []
   \<and> (\<forall>e. category_percentages categories_data total_income \<noteq> Inl e)"
proof (intro conjI)
  show "category_percentages (select_category_totals db uid) total_income =
     Inr (if total_income > 0
          then map (\<lambda>row. (fst row, snd row / total_income * 100))
                 (select_category_totals db uid)
          else [])"
    by (rule category_percentages_eq [OF distinct_category_totals])
  show "category_percentages categories_data 0 = Inr []"
    by (simp add: category_percentages_def)
  show "\<forall>e. category_percentages categories_data total_income \<noteq> Inl e"
    by (simp add: category_percentages_no_exn)
qed






text \<open>The answer of \<^verbatim>\<open>dashboard_data\<close>, field by field; it never raises.\<close>

lemma dashboard_data_eq:
  "dashboard_data db uid =
     Inr \<lparr> json_total_income = or_zero (select_sum_amount db uid ''income''),
           json_total_expenses = or_zero (select_sum_amount db uid ''expenses''),
           json_categories =
             (if or_zero (select_sum_amount db uid ''income'') > 0
              then map fst (select_category_totals db uid) else []),
           json_percentages =
             (if or_zero (select_sum_amount db uid ''income'') > 0
              then map (\<lambda>row. snd row / or_zero (select_sum_amount db uid ''income'') * 100)
                     (select_category_totals db uid)
              else []),
           json_dates = fst (trend_series (select_rows_by_date db uid)),
           json_income = fst (snd (trend_series (select_rows_by_date db uid))),
           json_expenses = snd (snd (trend_series (select_rows_by_date db uid))) \<rparr>"
  by (simp add: dashboard_data_def Let_def
      category_percentages_eq [OF distinct_category_totals] comp_def)




section \<open>Properties of the trend series\<close>

lemma keys_trends_loop:
  "set (map fst (trends_loop rows trends)) = set (map fst trends) \<union> date ` set rows"
  by (induction rows arbitrary: trends) (auto simp: Let_def keys_setitem)

lemma distinct_trends_loop:
  "distinct (map fst trends) \<Longrightarrow> distinct (map fst (trends_loop rows trends))"
  by (induction rows arbitrary: trends) (simp_all add: Let_def distinct_keys_setitem)

lemma dict_get_trends_loop:
  "dict_get (trends_loop rows trends) d (0, 0) =
     (fst (dict_get trends d (0, 0)) +
        sum_list (map amount (filter (\<lambda>r. date r = d \<and> txn_type r = ''income'') rows)),
      snd (dict_get trends d (0, 0)) +
        sum_list (map amount (filter (\<lambda>r. date r = d \<and> txn_type r \<noteq> ''income'') rows)))"
  by (induction rows arbitrary: trends) (auto simp: Let_def dict_get_setitem dict_get_absent)

lemma trend_series_eq:
  "trend_series rows =
     (sort (map fst (trends_loop rows [])),
      map (\<lambda>d. sum_list (map amount
             (filter (\<lambda>r. date r = d \<and> txn_type r = ''income'') rows)))
        (sort (map fst (trends_loop rows []))),
      map (\<lambda>d. sum_list (map amount
             (filter (\<lambda>r. date r = d \<and> txn_type r \<noteq> ''income'') rows)))
        (sort (map fst (trends_loop rows []))))"
  by (simp add: trend_series_def Let_def dict_get_trends_loop dict_get_Nil)

lemma expenses_filter:
  "\<forall>r \<in> set rows. txn_type r = ''income'' \<or> txn_type r = ''expenses'' \<Longrightarrow>
   filter (\<lambda>r. date r = d \<and> txn_type r \<noteq> ''income'') rows =
   filter (\<lambda>r. date r = d \<and> txn_type r = ''expenses'') rows"
  by (rule filter_cong) auto

lemma example_series:
  "trend_series example_rows = ([''2024-01-01'', ''2024-01-02''], [100, 0], [40, 20])"
  by (simp add: trend_series_def example_rows_def Let_def dict_get_def)

text \<open>
  Claim C5: for rows whose types are \<^verbatim>\<open>income\<close> and \<^verbatim>\<open>expenses\<close>, the trend series are
  the dates of the rows, each once and in ascending order, with the sum of the income
  amounts of each date and the sum of the expense amounts of each date (0 where a date has
  none of a type). For the worked example the dates are 2024-01-01 and 2024-01-02, the
  income series is 100, 0 and the expenses series is 40, 20.
\<close>

theorem trend_series_sums:
  assumes "\<forall>r \<in> set rows. txn_type r = ''income'' \<or> txn_type r = ''expenses''"
    and "trend_series rows = (dates, incomes, expenses)"
  shows "sorted dates \<and> distinct dates \<and> set dates = date ` set rows
       \<and> incomes = map (\<lambda>d. sum_list (map amount
                 (filter (\<lambda>r. date r = d \<and> txn_type r = ''income'') rows))) dates
       \<and> expenses = map (\<lambda>d. sum_list (map amount
                 (filter (\<lambda>r. date r = d \<and> txn_type r = ''expenses'') rows))) dates
       \<and> trend_series example_rows = ([''2024-01-01'', ''2024-01-02''], [100, 0], [40, 20])"
proof -
  have dates: "dates = sort (map fst (trends_loop rows []))"
    and incomes: "incomes = map (\<lambda>d. sum_list (map amount
                 (filter (\<lambda>r. date r = d \<and> txn_type r = ''income'') rows))) dates"
    and expenses: "expenses = map (\<lambda>d. sum_list (map amount
                 (filter (\<lambda>r. date r = d \<and> txn_type r \<noteq> ''income'') rows))) dates"
    using assms(2) unfolding trend_series_eq by auto
  have "sorted dates" using dates by simp
  moreover have "distinct dates"
    using dates distinct_trends_loop [of "[]" rows] by simp
  moreover have "set dates = date ` set rows"
    using dates keys_trends_loop [of rows "[]"] by simp
  moreover note incomes
  moreover have "expenses = map (\<lambda>d. sum_list (map amount
                 (filter (\<lambda>r. date r = d \<and> txn_type r = ''expenses'') rows))) dates"
    using expenses by (simp add: expenses_filter [OF assms(1)])
  ultimately show ?thesis using example_series by simp
qed

text \<open>
  The theorem at the worked example, through the whole feed: the rows of user 1 are
  selected by date, and the dates and the two series of the answer are those of the claim.
\<close>

theorem trend_series_sums_witness:
  "list_all (\<lambda>r. txn_type r = ''income'' \<or> txn_type r = ''expenses'') example_rows
   \<and> trend_series example_rows = ([''2024-01-01'', ''2024-01-02''], [100, 0], [40, 20])
   \<and> sorted [''2024-01-01'', ''2024-01-02'']
   \<and> set [''2024-01-01'', ''2024-01-02''] = date ` set example_rows
   \<and> (\<exists>j. dashboard_data example_rows 1 = Inr j
          \<and> json_dates j = [''2024-01-01'', ''2024-01-02'']
          \<and> json_income j = [100, 0]
          \<and> json_expenses j = [40, 20])"
proof -
  have types: "\<forall>r \<in> set example_rows. txn_type r = ''income'' \<or> txn_type r = ''expenses''"
    by (simp add: example_rows_def)
  have series:
    "trend_series example_rows = ([''2024-01-01'', ''2024-01-02''], [100, 0], [40, 20])"
    by (rule example_series)
  have selected: "select_rows_by_date example_rows 1 = example_rows"
    by (simp add: select_rows_by_date_def example_rows_def)
  have feed: "\<exists>j. dashboard_data example_rows 1 = Inr j
          \<and> json_dates j = [''2024-01-01'', ''2024-01-02'']
          \<and> json_income j = [100, 0]
          \<and> json_expenses j = [40, 20]"
    unfolding dashboard_data_eq selected series by simp
  show ?thesis
    using trend_series_sums [OF types series] types series feed
    by (simp add: list_all_iff)
qed

section \<open>Properties of last month's expenses\<close>

text \<open>A text never compares equal to the bound integer.\<close>

lemma sql_eq_text_integer: "sql_eq (sql_strftime_m month_of d) (SqlInteger m) \<noteq> Some True"
  by (simp add: sql_strftime_m_def split: option.split)

text \<open>
  Claim C10: \<^verbatim>\<open>get_last_month_expenses\<close> returns 0 for every table, every user and every
  month read off the clock, however SQLite reads the dates: the comparison of the text of
  \<^verbatim>\<open>strftime\<close> with the integer month is true of no row, the sum over no rows is
  \<^verbatim>\<open>NULL\<close>, and the function falls back to 0.
\<close>

theorem get_last_month_expenses_zero:
  "get_last_month_expenses month_of last_month db uid = 0"
  by (simp add: get_last_month_expenses_def sql_eq_text_integer sql_sum_def)

section \<open>Properties of the report document builder\<close>

text \<open>
  Claim C8: for an empty list of transactions and numeric totals, the elements handed to
  the renderer are the header, the summary table, the heading of the transaction details
  followed by the notice \<^verbatim>\<open>No transactions available.\<close>, and the footer. The notice is
  among them; the heading and the table of the expense breakdown are not.
  \<^verbatim>\<open>build_transaction_pdf\<close> returns \<^verbatim>\<open>True\<close> when the renderer builds these elements, and
  prints the error and returns \<^verbatim>\<open>False\<close> when the renderer raises.
\<close>

theorem build_transaction_pdf_empty:
  "report_elements lib [] (PyNum total_income) (PyNum total_expenses) (PyNum balance) =
     Inr [Paragraph (''Financial Report - '' @ strftime_header lib) Subtitle,
          Spacer 1 12,
          Paragraph ''Financial Summary'' SectionHeading,
          Table [[PyStr ''Metric'', PyStr ''Amount''],
                 [PyStr ''Total Income'', PyStr (''$'' @ format_comma_2f lib total_income)],
                 [PyStr ''Total Expenses'', PyStr (''$'' @ format_comma_2f lib total_expenses)],
                 [PyStr ''Net Balance'', PyStr (''$'' @ format_comma_2f lib balance)]]
            SummaryTable,
          Spacer 1 20,
          Paragraph ''Transaction Details'' SectionHeading,
          Paragraph ''No transactions available.'' NoData,
          Spacer 1 30,
          Paragraph ''Generated by BudgetBuddy Financial Tracker'' Footer,
          Paragraph (strftime_footer lib) Footer]
   \<and> (\<exists>elements.
         report_elements lib [] (PyNum total_income) (PyNum total_expenses) (PyNum balance)
           = Inr elements
       \<and> Paragraph ''No transactions available.'' NoData \<in> set elements
       \<and> Paragraph ''Expense Breakdown by Category'' SectionHeading \<notin> set elements
       \<and> (\<forall>rows. Table rows CategoryTable \<notin> set elements)
       \<and> build_transaction_pdf lib [] filename
            (PyNum total_income) (PyNum total_expenses) (PyNum balance) =
           (case pdf_build lib filename elements of
              None \<Rightarrow> Inr ([], True)
            | Some e \<Rightarrow> Inr ([''Error building PDF: '' @ exn_message lib e], False)))"
  by (simp add: report_elements_def bind_exn_def format_money_def get_category_summary_Nil
      build_transaction_pdf_def build_body_def split: option.split)

text \<open>The result of the builder, by the two places where the body can fail.\<close>

lemma build_transaction_pdf_cases:
  "build_transaction_pdf lib transactions filename total_income total_expenses balance =
     (case report_elements lib transactions total_income total_expenses balance of
        Inl e \<Rightarrow> Inr ([''Error building PDF: '' @ exn_message lib e], False)
      | Inr elements \<Rightarrow>
          (case pdf_build lib filename elements of
             None \<Rightarrow> Inr ([], True)
           | Some e \<Rightarrow> Inr ([''Error building PDF: '' @ exn_message lib e], False)))"
  by (simp add: build_transaction_pdf_def build_body_def bind_exn_def
      split: sum.split option.split)

lemma build_transaction_pdf_returns:
  "\<exists>printed ok.
     build_transaction_pdf lib transactions filename total_income total_expenses balance
       = Inr (printed, ok) \<and> (ok \<longleftrightarrow> printed = [])"
  unfolding build_transaction_pdf_cases by (simp split: sum.split option.split)

text \<open>Two inputs on which the construction fails before the renderer is reached.\<close>

lemma report_elements_bad_description:
  "report_elements lib [[(''amount'', PyNum 5), (''description'', PyNone)]]
     (PyNum 5) (PyNum 0) (PyNum 5) = Inl TypeError"
  by (simp add: report_elements_def bind_exn_def format_money_def get_category_summary_def
      dict_get_def sorted_by_amount_desc_def dict_of_pairs_Nil slice_30_def)

lemma report_elements_bad_totals:
  "report_elements lib [] PyNone PyNone PyNone = Inl TypeError"
  by (simp add: report_elements_def bind_exn_def format_money_def)

text \<open>
  Claim C9: for every list of transactions, file name and totals,
  \<^verbatim>\<open>build_transaction_pdf\<close> returns to its caller and raises nothing. It returns
  \<^verbatim>\<open>True\<close>, having printed nothing, when the elements are constructed and the renderer
  builds them; when the construction or the renderer raises, it prints one line with the
  error and returns \<^verbatim>\<open>False\<close>. A description that is \<^verbatim>\<open>None\<close> and totals that are
  \<^verbatim>\<open>None\<close> are two such failures.
\<close>

theorem build_transaction_pdf_never_raises:
  "build_transaction_pdf lib transactions filename total_income total_expenses balance =
     (case report_elements lib transactions total_income total_expenses balance of
        Inl e \<Rightarrow> Inr ([''Error building PDF: '' @ exn_message lib e], False)
      | Inr elements \<Rightarrow>
          (case pdf_build lib filename elements of
             None \<Rightarrow> Inr ([], True)
           | Some e \<Rightarrow> Inr ([''Error building PDF: '' @ exn_message lib e], False)))
   \<and> (\<forall>e. build_transaction_pdf lib transactions filename total_income total_expenses balance
          \<noteq> Inl e)
   \<and> (\<exists>printed ok.
         build_transaction_pdf lib transactions filename total_income total_expenses balance
           = Inr (printed, ok) \<and> (ok \<longleftrightarrow> printed = []))
   \<and> build_transaction_pdf lib [[(''amount'', PyNum 5), (''description'', PyNone)]] filename
         (PyNum 5) (PyNum 0) (PyNum 5)
       = Inr ([''Error building PDF: '' @ exn_message lib TypeError], False)
   \<and> build_transaction_pdf lib [] filename PyNone PyNone PyNone
       = Inr ([''Error building PDF: '' @ exn_message lib TypeError], False)"
proof (intro conjI)
  show "\<forall>e. build_transaction_pdf lib transactions filename total_income total_expenses balance
          \<noteq> Inl e"
    using build_transaction_pdf_returns [of lib transactions filename total_income
        total_expenses balance]
    by auto
  show "build_transaction_pdf lib [[(''amount'', PyNum 5), (''description'', PyNone)]] filename
         (PyNum 5) (PyNum 0) (PyNum 5)
       = Inr ([''Error building PDF: '' @ exn_message lib TypeError], False)"
    unfolding build_transaction_pdf_cases by (simp add: report_elements_bad_description)
  show "build_transaction_pdf lib [] filename PyNone PyNone PyNone
       = Inr ([''Error building PDF: '' @ exn_message lib TypeError], False)"
    unfolding build_transaction_pdf_cases by (simp add: report_elements_bad_totals)
qed (rule build_transaction_pdf_cases, rule build_transaction_pdf_returns)

end
